theory Spec2Isabelle
  imports Complex_Main "HOL-Library.Word"
begin

section \<open>JavaScript strings and byte arrays\<close>

text \<open>
  A JavaScript string is a sequence of UTF-16 code units; \<open>length\<close> and \<open>slice\<close> count
  code units. A \<open>Uint8Array\<close> is a sequence of bytes.
\<close>

type_synonym jsstring = "16 word list"
type_synonym bytes = "8 word list"

text \<open>A string literal of the source (all literals of the two files used here are ASCII).\<close>

definition lit :: "string \<Rightarrow> jsstring" where
  "lit s = map (\<lambda>c. of_nat (of_char c)) s"

text \<open>Truthiness of a string: only the empty string is falsy.\<close>

definition truthy :: "jsstring \<Rightarrow> bool" where
  "truthy s = (s \<noteq> [])"

text \<open>
  \<open>xs.slice(start, end)\<close> of arrays and strings: a negative index counts from the end,
  both indices are clamped to \<open>0..length\<close>, a missing \<open>end\<close> is the length.
\<close>

definition slice :: "'a list \<Rightarrow> int \<Rightarrow> int option \<Rightarrow> 'a list" where
  "slice xs start end =
     (let len = int (length xs);
          k = (if start < 0 then max (len + start) 0 else min start len);
          final = (case end of None \<Rightarrow> len
                   | Some e \<Rightarrow> if e < 0 then max (len + e) 0 else min e len)
      in take (nat (final - k)) (drop (nat k) xs))"

text \<open>\<open>xs.join(sep)\<close> on an array of strings.\<close>

fun join :: "jsstring \<Rightarrow> jsstring list \<Rightarrow> jsstring" where
  "join sep [] = []"
| "join sep [x] = x"
| "join sep (x # y # ys) = x @ sep @ join sep (y # ys)"

text \<open>
  \<open>s.trim()\<close> removes from both ends the code units of WhiteSpace and LineTerminator:
  tab, LF, VT, FF, CR, space, NBSP, U+1680, U+2000 to U+200A, U+2028, U+2029, U+202F,
  U+205F, U+3000 and U+FEFF.
\<close>

definition isWhiteSpace :: "16 word \<Rightarrow> bool" where
  "isWhiteSpace u =
     (let c = unat u in
      (0x09 \<le> c \<and> c \<le> 0x0D) \<or> c = 0x20 \<or> c = 0xA0 \<or> c = 0x1680 \<or>
      (0x2000 \<le> c \<and> c \<le> 0x200A) \<or> c = 0x2028 \<or> c = 0x2029 \<or> c = 0x202F \<or>
      c = 0x205F \<or> c = 0x3000 \<or> c = 0xFEFF)"

definition trim :: "jsstring \<Rightarrow> jsstring" where
  "trim s = rev (dropWhile isWhiteSpace (rev (dropWhile isWhiteSpace s)))"

subsection \<open>\<open>TextEncoder.encode\<close>\<close>

text \<open>
  \<open>new TextEncoder().encode(s)\<close> converts \<open>s\<close> to a sequence of scalar values (a high
  surrogate followed by a low surrogate is one supplementary code point; any other
  surrogate code unit becomes U+FFFD) and writes each scalar value in UTF-8.
\<close>

definition isHighSurrogate :: "16 word \<Rightarrow> bool" where
  "isHighSurrogate u = (0xD800 \<le> unat u \<and> unat u \<le> 0xDBFF)"

definition isLowSurrogate :: "16 word \<Rightarrow> bool" where
  "isLowSurrogate u = (0xDC00 \<le> unat u \<and> unat u \<le> 0xDFFF)"

definition utf8 :: "nat \<Rightarrow> bytes" where
  "utf8 cp =
     (if cp < 0x80 then [of_nat cp]
      else if cp < 0x800 then [of_nat (0xC0 + cp div 64), of_nat (0x80 + cp mod 64)]
      else if cp < 0x10000 then
        [of_nat (0xE0 + cp div 4096), of_nat (0x80 + cp div 64 mod 64),
         of_nat (0x80 + cp mod 64)]
      else
        [of_nat (0xF0 + cp div 262144), of_nat (0x80 + cp div 4096 mod 64),
         of_nat (0x80 + cp div 64 mod 64), of_nat (0x80 + cp mod 64)])"

definition replacement :: bytes where
  "replacement = utf8 0xFFFD"

fun encode :: "jsstring \<Rightarrow> bytes" where
  "encode [] = []"
| "encode [u] =
     (if isHighSurrogate u \<or> isLowSurrogate u then replacement else utf8 (unat u))"
| "encode (u # v # rest) =
     (if isHighSurrogate u then
        (if isLowSurrogate v then
           utf8 (0x10000 + (unat u - 0xD800) * 1024 + (unat v - 0xDC00)) @ encode rest
         else replacement @ encode (v # rest))
      else if isLowSurrogate u then replacement @ encode (v # rest)
      else utf8 (unat u) @ encode (v # rest))"

section \<open>The stream emitter: \<open>createStreamResponse\<close>\<close>

text \<open>
  The body of a response is either a string given to \<open>new Response\<close> or a
  \<open>ReadableStream\<close>, of which the model keeps what the controller was told: the chunks
  enqueued, in order, and whether \<open>close\<close> was called. The 10 ms pause between two
  calls of \<open>push\<close> is not modelled; the order of the calls is.
\<close>

record stream =
  chunks :: "bytes list"
  closed :: bool

datatype body = Text jsstring | Stream stream

record response =
  status :: nat
  headers :: "(string \<times> string) list"
  body :: body

definition chunkSize :: nat where
  "chunkSize = 20"

function push :: "jsstring \<Rightarrow> nat \<Rightarrow> stream \<Rightarrow> stream" where
  "push text i controller =
     (if i \<ge> length text then controller\<lparr>closed := True\<rparr>
      else push text (i + chunkSize)
             (controller\<lparr>chunks := chunks controller @
                [encode (slice text (int i) (Some (int (i + chunkSize))))]\<rparr>))"
  by pat_completeness auto
termination
  by (relation "measure (\<lambda>(text, i, controller). length text - i)")
     (auto simp: chunkSize_def)

declare push.simps [simp del]

definition createStreamResponse :: "jsstring \<Rightarrow> response" where
  "createStreamResponse text =
     \<lparr>status = 200,
      headers = [(''Content-Type'', ''text/plain; charset=utf-8''),
                 (''Cache-Control'', ''no-cache''),
                 (''Connection'', ''keep-alive'')],
      body = Stream (push text 0 \<lparr>chunks = [], closed = False\<rparr>)\<rparr>"

section \<open>Promises, timers and errors\<close>

text \<open>
  A promise is described by how it settles: fulfilled with a value or rejected, and
  after how many milliseconds from its creation, or never. The reason of a rejection
  is only ever logged by the two files, so it is not kept.
\<close>

datatype 'a promise = Fulfills nat 'a | Rejects nat | Never

text \<open>An element of the array \<open>Promise.allSettled\<close> resolves to.\<close>

datatype 'a settled = Fulfilled 'a | Rejected

text \<open>What a \<open>catch\<close> block receives.\<close>

datatype exn = Timeout | Failure

text \<open>
  \<open>Promise.allSettled([p, q])\<close>: fulfilled once both have settled, never rejected.
\<close>

fun allSettled :: "'a promise \<Rightarrow> 'a promise \<Rightarrow> ('a settled \<times> 'a settled) promise" where
  "allSettled Never q = Never"
| "allSettled p Never = Never"
| "allSettled (Fulfills t v) (Fulfills t' v') = Fulfills (max t t') (Fulfilled v, Fulfilled v')"
| "allSettled (Fulfills t v) (Rejects t') = Fulfills (max t t') (Fulfilled v, Rejected)"
| "allSettled (Rejects t) (Fulfills t' v') = Fulfills (max t t') (Rejected, Fulfilled v')"
| "allSettled (Rejects t) (Rejects t') = Fulfills (max t t') (Rejected, Rejected)"

text \<open>
  \<open>await Promise.race([p, new Promise((_, reject) => setTimeout(() => reject(new
  Error('timeout')), ms))])\<close>: the value of \<open>p\<close> if \<open>p\<close> is fulfilled before the timer
  fires, and a thrown error otherwise. A promise that settles in the very millisecond
  of the timer is taken to lose: the event loop runs due timers before I/O callbacks.
\<close>

fun raceTimeout :: "'a promise \<Rightarrow> nat \<Rightarrow> exn + 'a" where
  "raceTimeout (Fulfills t v) ms = (if t < ms then Inr v else Inl Timeout)"
| "raceTimeout (Rejects t) ms = (if t < ms then Inl Failure else Inl Timeout)"
| "raceTimeout Never ms = Inl Timeout"

section \<open>The environment of one request\<close>

text \<open>
  An HTTP exchange as the callers read it: \<open>res.ok\<close> false, a body that
  \<open>res.json()\<close> rejects, or the parsed data. A rejected \<open>fetch\<close> is \<open>Rejects\<close> of the
  promise; the time of the promise is that of the last \<open>await\<close> of the exchange.
\<close>

datatype 'a exchange = NotOk | Unparsed | Parsed 'a

record tavily_result =
  title :: jsstring
  url :: jsstring
  content :: jsstring

text \<open>
  The two fields of the Tavily response that \<open>searchTavily\<close> reads: \<open>data.answer\<close>
  (\<open>None\<close> when absent) and \<open>data.results\<close> (\<open>None\<close> unless it is an array).
\<close>

record tavily_data =
  tavily_answer :: "jsstring option"
  results :: "tavily_result list option"

text \<open>
  Everything a request observes that the two files do not define: built-in functions
  of the runtime whose tables are not modelled (\<open>toLowerCase\<close>, \<open>toUpperCase\<close>, the
  SHA-256 hex digest, the conversion of a number in a template literal), the
  environment variables, the collaborators imported from modules outside the
  sources (\<open>searchKnowledgeBase\<close>, \<open>searchSIETKWebsite\<close>), what the three HTTP
  endpoints answer, and the two readings of \<open>Date.now()\<close>.
\<close>

record env =
  toLowerCase :: "jsstring \<Rightarrow> jsstring"
  toUpperCase :: "jsstring \<Rightarrow> jsstring"
  sha256hex :: "jsstring \<Rightarrow> jsstring"
  numberToString :: "real \<Rightarrow> jsstring"
  GEMINI_API_KEY :: "jsstring option"
  GROQ_API_KEY :: "jsstring option"
  TAVILY_API_KEY :: "jsstring option"
  searchKnowledgeBase :: "jsstring \<Rightarrow> jsstring"
  searchSIETKWebsite :: "jsstring \<Rightarrow> jsstring promise"
  fetchTavily :: "jsstring \<Rightarrow> jsstring \<Rightarrow> tavily_data exchange promise"
  fetchGemini :: "jsstring \<Rightarrow> jsstring \<Rightarrow> jsstring option exchange promise"
  fetchGroq :: "jsstring \<Rightarrow> jsstring \<Rightarrow> jsstring option exchange promise"
  nowAtGetCached :: int
  nowAtSetCache :: int

text \<open>The outbound calls and cache writes of a request, in the order they are made.\<close>

datatype call =
    Call_searchKnowledgeBase jsstring
  | Call_searchSIETKWebsite jsstring
  | Call_searchTavily jsstring
  | Call_callGemini jsstring jsstring
  | Call_callGroq jsstring jsstring
  | Call_setCache jsstring jsstring

text \<open>An environment variable is usable when it is set and not the empty string.\<close>

fun configured :: "jsstring option \<Rightarrow> bool" where
  "configured None = False"
| "configured (Some k) = truthy k"

section \<open>\<open>searchTavily\<close> (src/lib/tavily-search.ts, lines 1 to 53)\<close>

definition formatResult :: "tavily_result \<Rightarrow> jsstring" where
  "formatResult result =
     lit ''- Title: '' @ title result @ lit ''\<newline>'' @
     lit ''  URL: '' @ url result @ lit ''\<newline>'' @
     lit ''  Content: '' @ tavily_result.content result @ lit ''\<newline>\<newline>''"

definition formattedResults :: "tavily_data \<Rightarrow> jsstring" where
  "formattedResults data =
     (case tavily_answer data of
        None \<Rightarrow> []
      | Some a \<Rightarrow> if truthy a then lit ''Direct Answer: '' @ a @ lit ''\<newline>\<newline>'' else []) @
     (case results data of
        None \<Rightarrow> []
      | Some rs \<Rightarrow> lit ''Web Results:\<newline>'' @ concat (map formatResult rs))"

definition tavilyQuery :: "jsstring \<Rightarrow> jsstring" where
  \<open>tavilyQuery query =
     query @ lit '' site:sietk.org OR "Siddharth Institute of Engineering and Technology"''\<close>

definition searchTavily :: "env \<Rightarrow> jsstring \<Rightarrow> jsstring promise" where
  "searchTavily e query =
     (case TAVILY_API_KEY e of
        None \<Rightarrow> Fulfills 0 []
      | Some apiKey \<Rightarrow>
          if \<not> truthy apiKey then Fulfills 0 []
          else (case fetchTavily e apiKey (tavilyQuery query) of
                  Never \<Rightarrow> Never
                | Rejects t \<Rightarrow> Fulfills t []
                | Fulfills t NotOk \<Rightarrow> Fulfills t []
                | Fulfills t Unparsed \<Rightarrow> Fulfills t []
                | Fulfills t (Parsed data) \<Rightarrow> Fulfills t (formattedResults data)))"

section \<open>The response cache: \<open>getCached\<close> and \<open>setCache\<close>\<close>

record cache_entry =
  answer :: jsstring
  timestamp :: int

type_synonym cache = "jsstring \<rightharpoonup> cache_entry"

definition cacheKey :: "env \<Rightarrow> jsstring \<Rightarrow> jsstring" where
  "cacheKey e query = sha256hex e (trim (toLowerCase e query))"

text \<open>
  \<open>getCached\<close> reads the map and the clock; it returns the map as it leaves it, and
  \<open>None\<close> for \<open>null\<close>.
\<close>

definition getCached :: "env \<Rightarrow> cache \<Rightarrow> jsstring \<Rightarrow> jsstring option \<times> cache" where
  "getCached e cache query =
     (let key = cacheKey e query in
      case cache key of
        Some cached \<Rightarrow>
          if nowAtGetCached e - timestamp cached < 3600000 then (Some (answer cached), cache)
          else (None, cache)
      | None \<Rightarrow> (None, cache))"

definition setCache :: "env \<Rightarrow> cache \<Rightarrow> jsstring \<Rightarrow> jsstring \<Rightarrow> cache" where
  "setCache e cache query ans =
     (let key = cacheKey e query in
      cache(key \<mapsto> \<lparr>answer = ans, timestamp = nowAtSetCache e\<rparr>))"

section \<open>Retrieval\<close>

record retrieval =
  content :: jsstring
  confidence :: real

record tiered = retrieval +
  sources :: "jsstring list"

text \<open>The value of a settled search call as both retrieval functions read it.\<close>

fun valueOrEmpty :: "jsstring settled \<Rightarrow> jsstring" where
  "valueOrEmpty (Fulfilled v) = v"
| "valueOrEmpty Rejected = []"

subsection \<open>\<open>tieredRetrieval\<close> (src/app/api/chat/route.ts, lines 81 to 130)\<close>

text \<open>
  The result comes with the calls made. The dynamic import of the repository's own
  module \<open>tavily-search\<close> is taken to succeed.
\<close>

definition tieredRetrieval :: "env \<Rightarrow> jsstring \<Rightarrow> tiered \<times> call list" where
  "tieredRetrieval e query =
     (let kbResult = searchKnowledgeBase e query in
      if truthy kbResult then
        (\<lparr>content = kbResult, confidence = 0.95, sources = [lit ''Knowledge Base'']\<rparr>,
         [Call_searchKnowledgeBase query])
      else
        (let calls = [Call_searchKnowledgeBase query, Call_searchSIETKWebsite query,
                      Call_searchTavily query]
         in case raceTimeout
                   (allSettled (searchSIETKWebsite e query) (searchTavily e query)) 1500 of
              Inr webResults \<Rightarrow>
                (let exa = valueOrEmpty (fst webResults);
                     tavily = valueOrEmpty (snd webResults)
                 in if \<not> truthy exa \<and> \<not> truthy tavily then
                      (\<lparr>content = lit ''No information found.'', confidence = 0,
                        sources = []\<rparr>, calls)
                    else
                      (\<lparr>content = lit ''EXA: '' @ exa @ lit ''\<newline>\<newline>TAVILY: '' @ tavily,
                        confidence = 0.85, sources = [lit ''Web Search'']\<rparr>, calls))
            | Inl error \<Rightarrow>
                (\<lparr>content = lit ''Search timed out.'', confidence = 0.1, sources = []\<rparr>,
                 calls)))"

subsection \<open>\<open>runUnifiedSearch\<close> (src/lib/tavily-search.ts, lines 132 to 169)\<close>

text \<open>
  The function awaits the searches without a timer: its outcome is \<open>None\<close> when that
  \<open>await\<close> never returns, \<open>Inl\<close> when it throws, and the pair of \<open>context\<close> and
  \<open>confidence\<close> otherwise.
\<close>

definition combinedContext :: "jsstring \<Rightarrow> jsstring \<Rightarrow> jsstring \<Rightarrow> jsstring" where
  "combinedContext kbResult exa tavily =
     (if truthy kbResult then
        lit ''--- INTERNAL KNOWLEDGE BASE ---\<newline>'' @ kbResult @ lit ''\<newline>\<newline>''
      else []) @
     (if truthy exa \<or> truthy tavily then
        lit ''--- REAL-TIME WEB SEARCH RESULTS ---\<newline>'' @
        (if truthy exa then lit ''[Source: SIETK.org]: '' @ exa @ lit ''\<newline>'' else []) @
        (if truthy tavily then lit ''[Source: Google/Web]: '' @ tavily @ lit ''\<newline>'' else [])
      else [])"

definition runUnifiedSearch ::
  "env \<Rightarrow> jsstring \<Rightarrow> (exn + jsstring \<times> real) option \<times> call list" where
  "runUnifiedSearch e query =
     (let kbResult = searchKnowledgeBase e query;
          calls = [Call_searchKnowledgeBase query, Call_searchSIETKWebsite query,
                   Call_searchTavily query]
      in case allSettled (searchSIETKWebsite e query) (searchTavily e query) of
           Never \<Rightarrow> (None, calls)
         | Rejects t \<Rightarrow> (Some (Inl Failure), calls)
         | Fulfills t webResults \<Rightarrow>
             (let exa = valueOrEmpty (fst webResults);
                  tavily = valueOrEmpty (snd webResults)
              in (Some (Inr (combinedContext kbResult exa tavily,
                    if truthy kbResult \<or> truthy exa \<or> truthy tavily then 0.9 else 0.0)),
                  calls)))"

section \<open>Generation: \<open>callGemini\<close>, \<open>callGroq\<close>, \<open>generateWithFallback\<close>\<close>

text \<open>
  The parsed data of the two generation endpoints is the field the caller extracts:
  \<open>data.candidates?.[0]?.content?.parts?.[0]?.text\<close> for Gemini and
  \<open>data.choices?.[0]?.message?.content\<close> for Groq, \<open>None\<close> when the chain is undefined.
\<close>

fun orEmpty :: "jsstring option \<Rightarrow> jsstring" where
  "orEmpty None = []"
| "orEmpty (Some s) = (if truthy s then s else [])"

fun textOf :: "jsstring option exchange promise \<Rightarrow> jsstring promise" where
  "textOf Never = Never"
| "textOf (Rejects t) = Rejects t"
| "textOf (Fulfills t NotOk) = Rejects t"
| "textOf (Fulfills t Unparsed) = Rejects t"
| "textOf (Fulfills t (Parsed field)) = Fulfills t (orEmpty field)"

definition callGemini :: "env \<Rightarrow> jsstring \<Rightarrow> jsstring \<Rightarrow> jsstring promise" where
  "callGemini e prompt key = textOf (fetchGemini e key prompt)"

definition callGroq :: "env \<Rightarrow> jsstring \<Rightarrow> jsstring \<Rightarrow> jsstring promise" where
  "callGroq e prompt key = textOf (fetchGroq e key prompt)"

definition apology :: jsstring where
  "apology = lit ''I'm sorry, I'm having trouble connecting to my AI brain right now. Please try again in 10 seconds.''"

text \<open>
  The result is \<open>Inl\<close> if the function throws. Each \<open>catch\<close> of the source is the
  \<open>Inl\<close> branch of the \<open>case\<close> on the awaited race.
\<close>

definition generateWithFallback ::
  "env \<Rightarrow> jsstring \<Rightarrow> jsstring \<Rightarrow> (exn + jsstring) \<times> call list" where
  "generateWithFallback e prompt googleKey =
     (case raceTimeout (callGemini e prompt googleKey) 3500 of
        Inr text \<Rightarrow> (Inr text, [Call_callGemini prompt googleKey])
      | Inl error \<Rightarrow>
          (case GROQ_API_KEY e of
             None \<Rightarrow> (Inr apology, [Call_callGemini prompt googleKey])
           | Some groqKey \<Rightarrow>
               if truthy groqKey then
                 (case raceTimeout (callGroq e prompt groqKey) 5000 of
                    Inr text \<Rightarrow>
                      (Inr text, [Call_callGemini prompt googleKey, Call_callGroq prompt groqKey])
                  | Inl err \<Rightarrow>
                      (Inr apology,
                       [Call_callGemini prompt googleKey, Call_callGroq prompt groqKey]))
               else (Inr apology, [Call_callGemini prompt googleKey])))"

section \<open>The prompt builder: \<open>buildProductionPrompt\<close>\<close>

record message =
  role :: jsstring
  content :: jsstring

definition historyLine :: "env \<Rightarrow> message \<Rightarrow> jsstring" where
  "historyLine e m = toUpperCase e (role m) @ lit '': '' @ message.content m"

text \<open>The template literal both files return, with \<open>recentHistory\<close> already computed.\<close>

definition promptTemplate ::
  "env \<Rightarrow> 'a retrieval_scheme \<Rightarrow> jsstring \<Rightarrow> jsstring \<Rightarrow> jsstring" where
  "promptTemplate e r recentHistory query =
     lit ''You are SIETK Assistant. Answer based on the CONTEXT provided.\<newline>  \<newline>CONTEXT (Confidence: '' @
     numberToString e (confidence r) @ lit ''):\<newline>'' @
     retrieval.content r @ lit ''\<newline>\<newline>HISTORY:\<newline>'' @
     recentHistory @ lit ''\<newline>\<newline>USER QUESTION:\<newline>'' @
     query @
     lit ''\<newline>\<newline>INSTRUCTIONS:\<newline>1. If the CONTEXT contains the answer, use it and cite it like this [1].\<newline>2. If the answer is NOT in context, politely say you don't know. Do NOT hallucinate.\<newline>3. Be concise and helpful.\<newline>4. Format nicely with markdown.''"

text \<open>src/app/api/chat/route.ts, lines 192 to 212: \<open>history.slice(-4)\<close>.\<close>

definition recentHistory_route :: "env \<Rightarrow> message list \<Rightarrow> jsstring" where
  "recentHistory_route e history =
     join (lit ''\<newline>'') (map (historyLine e) (slice history (- 4) None))"

definition buildProductionPrompt_route ::
  "env \<Rightarrow> 'a retrieval_scheme \<Rightarrow> jsstring \<Rightarrow> message list \<Rightarrow> jsstring" where
  "buildProductionPrompt_route e r query history =
     promptTemplate e r (recentHistory_route e history) query"

text \<open>
  src/lib/tavily-search.ts, lines 300 to 321: \<open>history.slice(0, -1).slice(-4)\<close>.
\<close>

definition recentHistory_unified :: "env \<Rightarrow> message list \<Rightarrow> jsstring" where
  "recentHistory_unified e history =
     join (lit ''\<newline>'')
       (map (historyLine e) (slice (slice history 0 (Some (- 1))) (- 4) None))"

definition buildProductionPrompt_unified ::
  "env \<Rightarrow> 'a retrieval_scheme \<Rightarrow> jsstring \<Rightarrow> message list \<Rightarrow> jsstring" where
  "buildProductionPrompt_unified e r query history =
     promptTemplate e r (recentHistory_unified e history) query"

section \<open>The classifier (src/lib/tavily-search.ts, line 98)\<close>

text \<open>
  The pattern \<open>/^(hi|hello|hey|greetings|thanks|thank you|good morning|good
  evening|bye)$/i\<close> has no \<open>u\<close> and no \<open>m\<close> flag: \<open>^\<close> and \<open>$\<close> are the two ends of the
  input, and a pattern character matches an input code unit when both have the same
  canonical form. \<open>canonicalize\<close> is the canonical form of the ASCII code units (the
  upper case of a letter). It leaves a code unit from 128 on as it is, where the
  runtime may map it to another code unit from 128 on, never to an ASCII one: against
  the ASCII characters of this pattern the matches are the same.
\<close>

definition canonicalize :: "16 word \<Rightarrow> 16 word" where
  "canonicalize u = (if 0x61 \<le> unat u \<and> unat u \<le> 0x7A then u - 0x20 else u)"

fun matchLiteral :: "jsstring \<Rightarrow> jsstring \<Rightarrow> bool" where
  "matchLiteral [] [] = True"
| "matchLiteral (p # ps) (u # us) = (canonicalize p = canonicalize u \<and> matchLiteral ps us)"
| "matchLiteral [] (u # us) = False"
| "matchLiteral (p # ps) [] = False"

definition alternatives :: "jsstring list" where
  "alternatives =
     [lit ''hi'', lit ''hello'', lit ''hey'', lit ''greetings'', lit ''thanks'',
      lit ''thank you'', lit ''good morning'', lit ''good evening'', lit ''bye'']"

definition isGeneralChat :: "jsstring \<Rightarrow> bool" where
  "isGeneralChat userQuery = list_ex (\<lambda>p. matchLiteral p (trim userQuery)) alternatives"

section \<open>The request handlers: \<open>POST\<close>\<close>

text \<open>
  What \<open>await req.json()\<close> gives: a body with the array \<open>messages\<close>, each entry with
  a string \<open>role\<close> and a string \<open>content\<close>, or a body the first statements of the \<open>try\<close>
  block throw on (not JSON, or without an array \<open>messages\<close>).
\<close>

datatype request = Unreadable | Messages "message list"

definition errorResponse :: "nat \<Rightarrow> string \<Rightarrow> response" where
  \<open>errorResponse code msg =
     \<lparr>status = code, headers = [], body = Text (lit (''{"error":"'' @ msg @ ''"}''))\<rparr>\<close>

text \<open>
  A handler returns the response (\<open>None\<close> if it never answers), the cache as it leaves
  it, and the calls it made.
\<close>

subsection \<open>src/app/api/chat/route.ts, lines 16 to 61\<close>

definition systemError_route :: jsstring where
  "systemError_route =
     lit ''I'm experiencing high traffic. Please try asking again in a moment. (System Error)''"

text \<open>Lines 40 to 55: what the handler does once the cache check has missed.\<close>

definition answerQuery_route ::
  "env \<Rightarrow> jsstring \<Rightarrow> message list \<Rightarrow> jsstring \<Rightarrow> cache \<Rightarrow>
   response option \<times> cache \<times> call list" where
  "answerQuery_route e apiKey messages userQuery cache =
     (case tieredRetrieval e userQuery of
        (retrieval, calls1) \<Rightarrow>
          (let prompt = buildProductionPrompt_route e retrieval userQuery messages in
           case generateWithFallback e prompt apiKey of
             (Inl error, calls2) \<Rightarrow>
               (Some (createStreamResponse systemError_route), cache, calls1 @ calls2)
           | (Inr ans, calls2) \<Rightarrow>
               (Some (createStreamResponse ans), setCache e cache userQuery ans,
                calls1 @ calls2 @ [Call_setCache userQuery ans])))"

definition POST_route ::
  "env \<Rightarrow> request \<Rightarrow> cache \<Rightarrow> response option \<times> cache \<times> call list" where
  "POST_route e req cache =
     (case GEMINI_API_KEY e of
        None \<Rightarrow> (Some (errorResponse 500 ''API key missing''), cache, [])
      | Some apiKey \<Rightarrow>
          if \<not> truthy apiKey then (Some (errorResponse 500 ''API key missing''), cache, [])
          else
            (case req of
               Unreadable \<Rightarrow> (Some (createStreamResponse systemError_route), cache, [])
             | Messages messages \<Rightarrow>
                 (case slice messages (- 1) None of
                    [] \<Rightarrow> (Some (errorResponse 400 ''No query found''), cache, [])
                  | latestMessage # rest \<Rightarrow>
                      (let userQuery = message.content latestMessage in
                       if \<not> truthy userQuery then
                         (Some (errorResponse 400 ''No query found''), cache, [])
                       else
                         (case getCached e cache userQuery of
                            (Some cachedResponse, cache1) \<Rightarrow>
                              if truthy cachedResponse then
                                (Some (createStreamResponse cachedResponse), cache1, [])
                              else answerQuery_route e apiKey messages userQuery cache1
                          | (None, cache1) \<Rightarrow>
                              answerQuery_route e apiKey messages userQuery cache1)))))"

subsection \<open>src/lib/tavily-search.ts, lines 69 to 129\<close>

definition systemError_unified :: jsstring where
  "systemError_unified = lit ''I'm sorry, I encountered a system error. Please try again.''"

text \<open>
  Lines 100 to 113: \<open>context\<close> and \<open>confidence\<close> start as \<open>""\<close> and \<open>0.0\<close> and are
  assigned from \<open>runUnifiedSearch\<close> only when the query is not general chat.
\<close>

definition contextAndConfidence ::
  "env \<Rightarrow> jsstring \<Rightarrow> (exn + jsstring \<times> real) option \<times> call list" where
  "contextAndConfidence e userQuery =
     (if isGeneralChat userQuery then (Some (Inr ([], 0.0)), [])
      else runUnifiedSearch e userQuery)"

text \<open>Lines 93 to 123: what the handler does once the cache check has missed.\<close>

definition answerQuery_unified ::
  "env \<Rightarrow> jsstring \<Rightarrow> message list \<Rightarrow> jsstring \<Rightarrow> cache \<Rightarrow>
   response option \<times> cache \<times> call list" where
  "answerQuery_unified e apiKey messages userQuery cache =
     (case contextAndConfidence e userQuery of
        (None, calls1) \<Rightarrow> (None, cache, calls1)
      | (Some (Inl error), calls1) \<Rightarrow>
          (Some (createStreamResponse systemError_unified), cache, calls1)
      | (Some (Inr (ctx, conf)), calls1) \<Rightarrow>
          (let prompt = buildProductionPrompt_unified e
                          \<lparr>retrieval.content = ctx, confidence = conf\<rparr> userQuery messages
           in case generateWithFallback e prompt apiKey of
                (Inl error, calls2) \<Rightarrow>
                  (Some (createStreamResponse systemError_unified), cache, calls1 @ calls2)
              | (Inr ans, calls2) \<Rightarrow>
                  if \<not> isGeneralChat userQuery then
                    (Some (createStreamResponse ans), setCache e cache userQuery ans,
                     calls1 @ calls2 @ [Call_setCache userQuery ans])
                  else (Some (createStreamResponse ans), cache, calls1 @ calls2)))"

definition POST_unified ::
  "env \<Rightarrow> request \<Rightarrow> cache \<Rightarrow> response option \<times> cache \<times> call list" where
  "POST_unified e req cache =
     (case GEMINI_API_KEY e of
        None \<Rightarrow> (Some (errorResponse 500 ''API key missing''), cache, [])
      | Some apiKey \<Rightarrow>
          if \<not> truthy apiKey then (Some (errorResponse 500 ''API key missing''), cache, [])
          else
            (case req of
               Unreadable \<Rightarrow> (Some (createStreamResponse systemError_unified), cache, [])
             | Messages messages \<Rightarrow>
                 (case slice messages (- 1) None of
                    [] \<Rightarrow> (Some (errorResponse 400 ''No query found''), cache, [])
                  | latestMessage # rest \<Rightarrow>
                      (let userQuery = message.content latestMessage in
                       if \<not> truthy userQuery then
                         (Some (errorResponse 400 ''No query found''), cache, [])
                       else
                         (case getCached e cache userQuery of
                            (Some cachedResponse, cache1) \<Rightarrow>
                              if truthy cachedResponse then
                                (Some (createStreamResponse cachedResponse), cache1, [])
                              else answerQuery_unified e apiKey messages userQuery cache1
                          | (None, cache1) \<Rightarrow>
                              answerQuery_unified e apiKey messages userQuery cache1)))))"

section \<open>Notions used to state the properties\<close>

text \<open>Lower case of the ASCII letters; every other code unit is left as it is.\<close>

definition asciiLower :: "16 word \<Rightarrow> 16 word" where
  "asciiLower u = (if 0x41 \<le> unat u \<and> unat u \<le> 0x5A then u + 0x20 else u)"

text \<open>
  A promise settles within \<open>ms\<close> milliseconds, with the result \<open>r\<close> that
  \<open>Promise.allSettled\<close> reports for it.
\<close>

definition settlesWithin :: "'a promise \<Rightarrow> nat \<Rightarrow> 'a settled \<Rightarrow> bool" where
  "settlesWithin p ms r =
     (case p of
        Fulfills t v \<Rightarrow> t < ms \<and> r = Fulfilled v
      | Rejects t \<Rightarrow> t < ms \<and> r = Rejected
      | Never \<Rightarrow> False)"

text \<open>A string without surrogate code units: every code unit is a character by itself.\<close>

definition surrogateFree :: "jsstring \<Rightarrow> bool" where
  "surrogateFree s = list_all (\<lambda>u. \<not> isHighSurrogate u \<and> \<not> isLowSurrogate u) s"

text \<open>
  A sample environment, to run the definitions on: ASCII case mappings stand for
  \<open>toLowerCase\<close> and \<open>toUpperCase\<close>, the identity for the digest, and a constant for the
  number conversion. The knowledge base has no entry, the site search answers after
  300 ms, Tavily after 400 ms, Gemini is refused after 100 ms and Groq answers after
  200 ms.
\<close>

definition sampleEnv :: env where
  "sampleEnv =
     \<lparr>toLowerCase = map asciiLower,
      toUpperCase = map canonicalize,
      sha256hex = (\<lambda>s. s),
      numberToString = (\<lambda>x. lit ''0.9''),
      GEMINI_API_KEY = Some (lit ''gemini-key''),
      GROQ_API_KEY = Some (lit ''groq-key''),
      TAVILY_API_KEY = Some (lit ''tavily-key''),
      searchKnowledgeBase = (\<lambda>q. []),
      searchSIETKWebsite = (\<lambda>q. Fulfills 300 (lit ''site'')),
      fetchTavily = (\<lambda>key q. Fulfills 400
         (Parsed \<lparr>tavily_answer = Some (lit ''web''), results = None\<rparr>)),
      fetchGemini = (\<lambda>key prompt. Rejects 100),
      fetchGroq = (\<lambda>key prompt. Fulfills 200 (Parsed (Some (lit ''answer'')))),
      nowAtGetCached = 1000,
      nowAtSetCache = 2000\<rparr>"

section \<open>Auxiliary facts\<close>

subsection \<open>\<open>slice\<close>\<close>

lemma slice_last: "xs \<noteq> [] \<Longrightarrow> slice xs (- 1) None = [last xs]"
proof -
  assume ne: "xs \<noteq> []"
  then have len: "length xs \<ge> 1" by (cases xs) auto
  have "drop (length (butlast xs)) (butlast xs @ [last xs]) = [last xs]"
    by simp
  then have "drop (length xs - 1) xs = [last xs]"
    using ne by simp
  moreover have "nat (max (int (length xs) + - 1) 0) = length xs - 1"
    using len by simp
  ultimately show ?thesis
    using len by (simp add: slice_def Let_def)
qed

lemma slice_all_but_last: "slice xs 0 (Some (- 1)) = butlast xs"
proof -
  have "nat (max (int (length xs) + - 1) 0) = length xs - 1" by simp
  then show ?thesis by (simp add: slice_def Let_def butlast_conv_take)
qed

lemma slice_last4: "slice xs (- 4) None = drop (length xs - 4) xs"
proof -
  have "nat (max (int (length xs) + - 4) 0) = length xs - 4" by simp
  then show ?thesis by (simp add: slice_def Let_def)
qed

lemma slice_chunk: "slice s (int i) (Some (int i + int n)) = take n (drop i s)"
  by (auto simp: slice_def Let_def min_def)

subsection \<open>Promises\<close>

lemma raceTimeout_allSettled:
  "settlesWithin p ms r0 \<Longrightarrow> settlesWithin q ms r1 \<Longrightarrow>
   raceTimeout (allSettled p q) ms = Inr (r0, r1)"
  by (cases p; cases q) (auto simp: settlesWithin_def)

lemma allSettled_never_rejects: "allSettled p q \<noteq> Rejects t"
  by (cases p; cases q) auto

lemma searchTavily_never_rejects: "searchTavily e query \<noteq> Rejects t"
  by (auto simp: searchTavily_def split: option.splits promise.splits exchange.splits)

subsection \<open>The classifier\<close>

lemma asciiLower_canonicalize: "asciiLower (canonicalize u) = asciiLower u"
  by (auto simp: canonicalize_def asciiLower_def unat_sub word_le_nat_alt)

lemma canonicalize_asciiLower: "canonicalize (asciiLower u) = canonicalize u"
  by (auto simp: canonicalize_def asciiLower_def unat_word_ariths)

lemma canonicalize_eq_iff: "canonicalize p = canonicalize u \<longleftrightarrow> asciiLower p = asciiLower u"
  by (metis asciiLower_canonicalize canonicalize_asciiLower)

lemma matchLiteral_iff: "matchLiteral p s \<longleftrightarrow> map asciiLower p = map asciiLower s"
  by (induction p s rule: matchLiteral.induct) (auto simp: canonicalize_eq_iff)

lemma alternatives_lower: "p \<in> set alternatives \<Longrightarrow> map asciiLower p = p"
  by (auto simp: alternatives_def lit_def asciiLower_def)

lemma isGeneralChat_iff: "isGeneralChat q \<longleftrightarrow> map asciiLower (trim q) \<in> set alternatives"
  unfolding isGeneralChat_def list_ex_iff matchLiteral_iff
  by (metis alternatives_lower)

lemma no_alternative_extends:
  "p \<in> set alternatives \<Longrightarrow> w \<noteq> [] \<Longrightarrow> p @ w \<notin> set alternatives"
  by (auto simp: alternatives_def lit_def)

lemma no_alternative_extended_left:
  "p \<in> set alternatives \<Longrightarrow> w \<noteq> [] \<Longrightarrow> w @ p \<notin> set alternatives"
proof
  assume p: "p \<in> set alternatives" and w: "w \<noteq> []" and m: "w @ p \<in> set alternatives"
  have "rev p @ rev w \<in> rev ` set alternatives" using m by (metis imageI rev_append)
  moreover have "rev p \<in> rev ` set alternatives" using p by simp
  ultimately show False using w
    by (auto simp: alternatives_def lit_def)
qed

subsection \<open>The handlers\<close>

lemma no_setCache_generate:
  "Call_setCache q a \<notin> set (snd (generateWithFallback e prompt key))"
  by (auto simp: generateWithFallback_def split: sum.splits option.splits)

lemma generateWithFallback_returns:
  "\<exists>s. fst (generateWithFallback e prompt key) = Inr s"
  by (auto simp: generateWithFallback_def split: sum.splits option.splits)

lemma snd_getCached: "snd (getCached e cache q) = cache"
  by (auto simp: getCached_def Let_def split: option.splits)

lemma answerQuery_unified_general:
  "isGeneralChat userQuery \<Longrightarrow>
   fst (snd (answerQuery_unified e apiKey messages userQuery cache)) = cache
   \<and> Call_setCache q a \<notin> set (snd (snd (answerQuery_unified e apiKey messages userQuery cache)))"
proof -
  assume gc: "isGeneralChat userQuery"
  define prompt where "prompt = buildProductionPrompt_unified e
      \<lparr>retrieval.content = [], confidence = 0\<rparr> userQuery messages"
  obtain r calls where g: "generateWithFallback e prompt apiKey = (r, calls)"
    by (cases "generateWithFallback e prompt apiKey")
  have "Call_setCache q a \<notin> set calls"
    using no_setCache_generate [of q a e prompt apiKey] g by simp
  then show ?thesis
    using gc g
    by (cases r) (simp_all add: answerQuery_unified_def contextAndConfidence_def prompt_def)
qed

lemma answerQuery_unified_general_calls:
  "isGeneralChat userQuery \<Longrightarrow>
   snd (snd (answerQuery_unified e apiKey messages userQuery cache)) =
   snd (generateWithFallback e
          (buildProductionPrompt_unified e \<lparr>retrieval.content = [], confidence = 0\<rparr>
             userQuery messages) apiKey)"
  by (auto simp: answerQuery_unified_def contextAndConfidence_def split: sum.splits prod.splits)

subsection \<open>The sample environment\<close>

lemma searchTavily_sampleEnv:
  "searchTavily (sampleEnv\<lparr>searchSIETKWebsite := f\<rparr>) q =
     Fulfills 400 (lit ''Direct Answer: web\<newline>\<newline>'')"
  by (simp add: searchTavily_def sampleEnv_def truthy_def lit_def formattedResults_def)

section \<open>The stream emitter\<close>

text \<open>
  C10. For the empty answer the emitter enqueues no chunk and closes the stream at
  once, in a response of status 200 and content type text/plain; and the empty answer
  is what \<open>callGemini\<close> and \<open>callGroq\<close> return when the response is a success but has
  no text at the place they read.
\<close>

theorem createStreamResponse_empty:
  "createStreamResponse [] =
     \<lparr>status = 200,
      headers = [(''Content-Type'', ''text/plain; charset=utf-8''),
                 (''Cache-Control'', ''no-cache''),
                 (''Connection'', ''keep-alive'')],
      body = Stream \<lparr>chunks = [], closed = True\<rparr>\<rparr>
   \<and> callGemini (e\<lparr>fetchGemini := \<lambda>key prompt. Fulfills t (Parsed None)\<rparr>) prompt key
       = Fulfills t []
   \<and> callGroq (e\<lparr>fetchGroq := \<lambda>key prompt. Fulfills t (Parsed None)\<rparr>) prompt key
       = Fulfills t []"
  by (simp add: createStreamResponse_def push.simps callGemini_def callGroq_def)

text \<open>
  C5, at the answer made of nineteen letters \<open>a\<close> followed by U+1F600 (the surrogate
  pair D83D DE00): the first chunk ends with the high surrogate alone and the second is
  the low surrogate alone, so each is encoded as U+FFFD (EF BF BD). The chunks
  concatenate to 25 bytes, while the answer itself is 23 bytes ending in F0 9F 98 80.
\<close>

theorem createStreamResponse_splits_surrogate_pair:
  "body (createStreamResponse (lit ''aaaaaaaaaaaaaaaaaaa'' @ [0xD83D, 0xDE00])) =
     Stream \<lparr>chunks = [encode (lit ''aaaaaaaaaaaaaaaaaaa'') @ [0xEF, 0xBF, 0xBD],
                       [0xEF, 0xBF, 0xBD]],
             closed = True\<rparr>
   \<and> encode (lit ''aaaaaaaaaaaaaaaaaaa'' @ [0xD83D, 0xDE00]) =
       encode (lit ''aaaaaaaaaaaaaaaaaaa'') @ [0xF0, 0x9F, 0x98, 0x80]"
  by (simp add: createStreamResponse_def push.simps slice_def chunkSize_def lit_def
        isHighSurrogate_def isLowSurrogate_def utf8_def replacement_def)

text \<open>
  What the emitter does get right: it always closes the stream, and for an answer
  without surrogate code units the chunks concatenate to the encoding of the answer.
\<close>

lemma closed_push: "closed (push s i controller)"
  by (induction s i controller rule: push.induct) (simp add: push.simps)

lemma encode_surrogateFree:
  "surrogateFree s \<Longrightarrow> encode s = concat (map (\<lambda>u. utf8 (unat u)) s)"
  by (induction s rule: encode.induct) (auto simp: surrogateFree_def)

lemma encode_append:
  "surrogateFree (xs @ ys) \<Longrightarrow> encode (xs @ ys) = encode xs @ encode ys"
  by (simp add: encode_surrogateFree surrogateFree_def)

lemma push_surrogateFree:
  "surrogateFree s \<Longrightarrow>
   concat (chunks (push s i controller)) = concat (chunks controller) @ encode (drop i s)"
proof (induction s i controller rule: push.induct)
  case (1 s i controller)
  show ?case
  proof (cases "i \<ge> length s")
    case True
    then show ?thesis by (simp add: push.simps)
  next
    case False
    have "surrogateFree (drop i s)"
      using "1.prems" by (auto simp: surrogateFree_def list_all_iff dest: in_set_dropD)
    then have sf: "surrogateFree (take chunkSize (drop i s) @ drop chunkSize (drop i s))"
      by (simp only: append_take_drop_id)
    have "encode (drop i s) =
          encode (take chunkSize (drop i s)) @ encode (drop (i + chunkSize) s)"
      using encode_append [OF sf] unfolding append_take_drop_id
      by (simp add: add.commute)
    then show ?thesis
      using False "1.IH" [OF _ "1.prems"]
      by (simp add: push.simps [of s i] slice_chunk)
  qed
qed

lemma createStreamResponse_surrogateFree:
  "surrogateFree s \<Longrightarrow>
   \<exists>st. body (createStreamResponse s) = Stream st \<and> closed st \<and> concat (chunks st) = encode s"
  by (simp add: createStreamResponse_def closed_push push_surrogateFree)

section \<open>The response cache\<close>

text \<open>
  C7. \<open>getCached\<close> returns an answer exactly when an entry is stored under the digest of
  the lower-cased, trimmed query and \<open>Date.now()\<close> minus its timestamp is less than
  3600 seconds (in milliseconds); the answer is the stored one. Otherwise it returns
  \<open>null\<close>. In both cases the map is left as it was, so an expired entry stays stored;
  \<open>setCache\<close> overwrites the entry of its key and no other.
\<close>

theorem getCached_hit_iff:
  "(fst (getCached e cache query) = Some a \<longleftrightarrow>
      (\<exists>c. cache (sha256hex e (trim (toLowerCase e query))) = Some c
           \<and> nowAtGetCached e - timestamp c < 3600 * 1000 \<and> a = answer c))
   \<and> (fst (getCached e cache query) = None \<longleftrightarrow>
      \<not> (\<exists>c. cache (sha256hex e (trim (toLowerCase e query))) = Some c
           \<and> nowAtGetCached e - timestamp c < 3600 * 1000))
   \<and> snd (getCached e cache query) = cache
   \<and> setCache e cache query' ans =
       cache(sha256hex e (trim (toLowerCase e query')) \<mapsto>
             \<lparr>answer = ans, timestamp = nowAtSetCache e\<rparr>)"
  by (auto simp: getCached_def setCache_def cacheKey_def Let_def split: option.splits)

text \<open>
  The sample cache holds one entry, written at time 500 under the key of \<open>fees\<close>. At
  time 1000 the query \<open>" Fees "\<close> hits it; at time 3600500 the entry is exactly one
  hour old and the same query misses.
\<close>

theorem getCached_hit_iff_witness:
  "fst (getCached sampleEnv
          [lit ''fees'' \<mapsto> \<lparr>answer = lit ''1000'', timestamp = 500\<rparr>] (lit '' Fees '')) =
     Some (lit ''1000'')
   \<and> fst (getCached (sampleEnv\<lparr>nowAtGetCached := 3600500\<rparr>)
          [lit ''fees'' \<mapsto> \<lparr>answer = lit ''1000'', timestamp = 500\<rparr>] (lit '' Fees '')) =
     None"
proof -
  have k: "sha256hex sampleEnv (trim (toLowerCase sampleEnv (lit '' Fees ''))) = lit ''fees''"
    by (simp add: sampleEnv_def lit_def asciiLower_def trim_def isWhiteSpace_def)
  have k': "sha256hex (sampleEnv\<lparr>nowAtGetCached := 3600500\<rparr>)
       (trim (toLowerCase (sampleEnv\<lparr>nowAtGetCached := 3600500\<rparr>) (lit '' Fees ''))) =
       lit ''fees''"
    by (simp add: sampleEnv_def lit_def asciiLower_def trim_def isWhiteSpace_def)
  have n: "nowAtGetCached sampleEnv = 1000" by (simp add: sampleEnv_def)
  show ?thesis
    using getCached_hit_iff [of sampleEnv
        "[lit ''fees'' \<mapsto> \<lparr>answer = lit ''1000'', timestamp = 500\<rparr>]" "lit '' Fees ''"
        "lit ''1000''"]
      getCached_hit_iff [of "sampleEnv\<lparr>nowAtGetCached := 3600500\<rparr>"
        "[lit ''fees'' \<mapsto> \<lparr>answer = lit ''1000'', timestamp = 500\<rparr>]" "lit '' Fees ''"]
    by (simp add: k k' n)
qed

section \<open>Tiered retrieval\<close>

text \<open>
  C3. When the knowledge base returns a non-empty string, \<open>tieredRetrieval\<close> returns that
  string with confidence 0.95 and the single source \<open>Knowledge Base\<close>, and the only call
  it has made is the one to the knowledge base: neither search is started.
\<close>

theorem tieredRetrieval_kb_short_circuit:
  "truthy (searchKnowledgeBase e query) \<Longrightarrow>
   tieredRetrieval e query =
     (\<lparr>retrieval.content = searchKnowledgeBase e query, confidence = 0.95,
       sources = [lit ''Knowledge Base'']\<rparr>,
      [Call_searchKnowledgeBase query])"
  by (simp add: tieredRetrieval_def)

text \<open>The sample environment with a knowledge base that answers \<open>Fee: 1000\<close>.\<close>

theorem tieredRetrieval_kb_short_circuit_witness:
  "truthy (searchKnowledgeBase (sampleEnv\<lparr>searchKnowledgeBase := \<lambda>q. lit ''Fee: 1000''\<rparr>)
             (lit ''fees''))
   \<and> tieredRetrieval (sampleEnv\<lparr>searchKnowledgeBase := \<lambda>q. lit ''Fee: 1000''\<rparr>) (lit ''fees'') =
       (\<lparr>retrieval.content = lit ''Fee: 1000'', confidence = 0.95,
         sources = [lit ''Knowledge Base'']\<rparr>,
        [Call_searchKnowledgeBase (lit ''fees'')])"
proof -
  have h: "truthy (searchKnowledgeBase
             (sampleEnv\<lparr>searchKnowledgeBase := \<lambda>q. lit ''Fee: 1000''\<rparr>) (lit ''fees''))"
    by (simp add: truthy_def lit_def)
  from tieredRetrieval_kb_short_circuit [OF h] h show ?thesis
    by simp
qed

text \<open>
  C8. In Tier 2 (the knowledge base returned nothing), when both searches settle before
  the 1.5 s timer, the content is \<open>EXA: \<close>, the site result, a blank line, \<open>TAVILY: \<close>
  and the Tavily result, where a rejected or empty call stands for the empty string;
  the confidence is 0.85, unless both are empty, and then the content is
  \<open>No information found.\<close> with confidence 0. In particular, when the site search is
  rejected and Tavily answers in time, only Tavily's text is in the content.
\<close>

theorem tieredRetrieval_web_in_time:
  assumes "\<not> truthy (searchKnowledgeBase e query)"
  shows "(settlesWithin (searchSIETKWebsite e query) 1500 r0 \<and>
          settlesWithin (searchTavily e query) 1500 r1 \<longrightarrow>
          fst (tieredRetrieval e query) =
            (if \<not> truthy (valueOrEmpty r0) \<and> \<not> truthy (valueOrEmpty r1) then
               \<lparr>retrieval.content = lit ''No information found.'', confidence = 0,
                 sources = []\<rparr>
             else
               \<lparr>retrieval.content =
                  lit ''EXA: '' @ valueOrEmpty r0 @ lit ''\<newline>\<newline>TAVILY: '' @ valueOrEmpty r1,
                confidence = 0.85, sources = [lit ''Web Search'']\<rparr>))
       \<and> (\<forall>t0 t1 v. searchSIETKWebsite e query = Rejects t0 \<and> t0 < 1500 \<and>
             searchTavily e query = Fulfills t1 v \<and> t1 < 1500 \<and> truthy v \<longrightarrow>
             fst (tieredRetrieval e query) =
               \<lparr>retrieval.content = lit ''EXA: '' @ lit ''\<newline>\<newline>TAVILY: '' @ v,
                confidence = 0.85, sources = [lit ''Web Search'']\<rparr>)"
proof (intro conjI impI allI)
  assume "settlesWithin (searchSIETKWebsite e query) 1500 r0 \<and>
          settlesWithin (searchTavily e query) 1500 r1"
  then have "raceTimeout (allSettled (searchSIETKWebsite e query) (searchTavily e query)) 1500
             = Inr (r0, r1)"
    by (simp add: raceTimeout_allSettled)
  then show "fst (tieredRetrieval e query) =
            (if \<not> truthy (valueOrEmpty r0) \<and> \<not> truthy (valueOrEmpty r1) then
               \<lparr>retrieval.content = lit ''No information found.'', confidence = 0,
                 sources = []\<rparr>
             else
               \<lparr>retrieval.content =
                  lit ''EXA: '' @ valueOrEmpty r0 @ lit ''\<newline>\<newline>TAVILY: '' @ valueOrEmpty r1,
                confidence = 0.85, sources = [lit ''Web Search'']\<rparr>)"
    using assms by (simp add: tieredRetrieval_def Let_def)
next
  fix t0 t1 v
  assume "searchSIETKWebsite e query = Rejects t0 \<and> t0 < 1500 \<and>
          searchTavily e query = Fulfills t1 v \<and> t1 < 1500 \<and> truthy v"
  then show "fst (tieredRetrieval e query) =
               \<lparr>retrieval.content = lit ''EXA: '' @ lit ''\<newline>\<newline>TAVILY: '' @ v,
                confidence = 0.85, sources = [lit ''Web Search'']\<rparr>"
    using assms by (simp add: tieredRetrieval_def Let_def)
qed

text \<open>
  In the sample environment both searches answer in time; with a site search that is
  rejected after 10 ms, the content keeps Tavily's text only.
\<close>

theorem tieredRetrieval_web_in_time_witness:
  "\<not> truthy (searchKnowledgeBase sampleEnv (lit ''fees''))
   \<and> settlesWithin (searchSIETKWebsite sampleEnv (lit ''fees'')) 1500 (Fulfilled (lit ''site''))
   \<and> settlesWithin (searchTavily sampleEnv (lit ''fees'')) 1500
       (Fulfilled (lit ''Direct Answer: web\<newline>\<newline>''))
   \<and> fst (tieredRetrieval sampleEnv (lit ''fees'')) =
       \<lparr>retrieval.content = lit ''EXA: site\<newline>\<newline>TAVILY: Direct Answer: web\<newline>\<newline>'',
        confidence = 0.85, sources = [lit ''Web Search'']\<rparr>
   \<and> searchSIETKWebsite (sampleEnv\<lparr>searchSIETKWebsite := \<lambda>q. Rejects 10\<rparr>) (lit ''fees'')
       = Rejects 10
   \<and> fst (tieredRetrieval (sampleEnv\<lparr>searchSIETKWebsite := \<lambda>q. Rejects 10\<rparr>) (lit ''fees'')) =
       \<lparr>retrieval.content = lit ''EXA: \<newline>\<newline>TAVILY: Direct Answer: web\<newline>\<newline>'',
        confidence = 0.85, sources = [lit ''Web Search'']\<rparr>"
proof -
  let ?q = "lit ''fees''"
  let ?e = "sampleEnv\<lparr>searchSIETKWebsite := \<lambda>q. Rejects 10\<rparr>"
  have t: "searchTavily sampleEnv ?q = Fulfills 400 (lit ''Direct Answer: web\<newline>\<newline>'')"
    using searchTavily_sampleEnv [of "searchSIETKWebsite sampleEnv" ?q] by simp
  have t': "searchTavily ?e ?q = Fulfills 400 (lit ''Direct Answer: web\<newline>\<newline>'')"
    by (rule searchTavily_sampleEnv)
  have kb: "\<not> truthy (searchKnowledgeBase sampleEnv ?q)"
    by (simp add: sampleEnv_def truthy_def)
  have kb': "\<not> truthy (searchKnowledgeBase ?e ?q)"
    by (simp add: sampleEnv_def truthy_def)
  have s0: "settlesWithin (searchSIETKWebsite sampleEnv ?q) 1500 (Fulfilled (lit ''site''))"
    by (simp add: sampleEnv_def settlesWithin_def)
  have s1: "settlesWithin (searchTavily sampleEnv ?q) 1500
              (Fulfilled (lit ''Direct Answer: web\<newline>\<newline>''))"
    by (simp add: t settlesWithin_def)
  have r: "searchSIETKWebsite ?e ?q = Rejects 10" by simp
  have v: "truthy (lit ''Direct Answer: web\<newline>\<newline>'')" by (simp add: truthy_def lit_def)
  have a: "fst (tieredRetrieval sampleEnv ?q) =
       \<lparr>retrieval.content = lit ''EXA: site\<newline>\<newline>TAVILY: Direct Answer: web\<newline>\<newline>'',
        confidence = 0.85, sources = [lit ''Web Search'']\<rparr>"
    using tieredRetrieval_web_in_time [OF kb, of "Fulfilled (lit ''site'')"
        "Fulfilled (lit ''Direct Answer: web\<newline>\<newline>'')"] s0 s1
    by (simp add: truthy_def lit_def)
  have b: "fst (tieredRetrieval ?e ?q) =
       \<lparr>retrieval.content = lit ''EXA: \<newline>\<newline>TAVILY: Direct Answer: web\<newline>\<newline>'',
        confidence = 0.85, sources = [lit ''Web Search'']\<rparr>"
    using tieredRetrieval_web_in_time [OF kb'] r t' v
    by (simp add: lit_def)
  show ?thesis using kb s0 s1 a r b by blast
qed

section \<open>Confidence values\<close>

text \<open>
  C6. The confidence returned by \<open>tieredRetrieval\<close> (0.95, 0.85, 0 or 0.1), the one
  returned by \<open>runUnifiedSearch\<close> (0.9 or 0) and the one the unified handler passes on,
  which is 0 when the general-chat test skips the search, all lie between 0 and 1.
\<close>

theorem confidence_in_unit_interval:
  "0 \<le> confidence (fst (tieredRetrieval e query))
   \<and> confidence (fst (tieredRetrieval e query)) \<le> 1
   \<and> (\<forall>ctx conf calls. runUnifiedSearch e query = (Some (Inr (ctx, conf)), calls)
        \<longrightarrow> 0 \<le> conf \<and> conf \<le> 1)
   \<and> (\<forall>ctx conf calls. contextAndConfidence e query = (Some (Inr (ctx, conf)), calls)
        \<longrightarrow> 0 \<le> conf \<and> conf \<le> 1)"
  by (auto simp: tieredRetrieval_def runUnifiedSearch_def contextAndConfidence_def Let_def
           split: sum.splits promise.splits if_splits)

text \<open>
  In the sample environment the unified search of \<open>fees\<close> returns confidence 0.9 and
  the query \<open>hello\<close> skips the search with confidence 0.
\<close>

theorem confidence_in_unit_interval_witness:
  "runUnifiedSearch sampleEnv (lit ''fees'') =
     (Some (Inr (lit ''--- REAL-TIME WEB SEARCH RESULTS ---\<newline>[Source: SIETK.org]: site\<newline>[Source: Google/Web]: Direct Answer: web\<newline>\<newline>\<newline>'', 0.9)),
      [Call_searchKnowledgeBase (lit ''fees''), Call_searchSIETKWebsite (lit ''fees''),
       Call_searchTavily (lit ''fees'')])
   \<and> contextAndConfidence sampleEnv (lit ''hello'') = (Some (Inr ([], 0)), [])
   \<and> 0 \<le> confidence (fst (tieredRetrieval sampleEnv (lit ''fees'')))
   \<and> confidence (fst (tieredRetrieval sampleEnv (lit ''fees''))) \<le> 1"
proof -
  have t: "\<And>q. searchTavily sampleEnv q =
             Fulfills 400 (lit ''Direct Answer: web\<newline>\<newline>'')"
    using searchTavily_sampleEnv [of "searchSIETKWebsite sampleEnv"] by simp
  have s: "\<And>q. searchSIETKWebsite sampleEnv q = Fulfills 300 (lit ''site'')"
    and k: "\<And>q. searchKnowledgeBase sampleEnv q = []"
    by (simp_all add: sampleEnv_def)
  have u: "runUnifiedSearch sampleEnv (lit ''fees'') =
     (Some (Inr (lit ''--- REAL-TIME WEB SEARCH RESULTS ---\<newline>[Source: SIETK.org]: site\<newline>[Source: Google/Web]: Direct Answer: web\<newline>\<newline>\<newline>'', 0.9)),
      [Call_searchKnowledgeBase (lit ''fees''), Call_searchSIETKWebsite (lit ''fees''),
       Call_searchTavily (lit ''fees'')])"
    by (simp add: runUnifiedSearch_def t s k combinedContext_def truthy_def lit_def)
  have c: "contextAndConfidence sampleEnv (lit ''hello'') = (Some (Inr ([], 0)), [])"
    by (simp add: contextAndConfidence_def isGeneralChat_def alternatives_def lit_def trim_def
          isWhiteSpace_def canonicalize_def)
  show ?thesis
    using confidence_in_unit_interval [of sampleEnv "lit ''fees''"] u c by blast
qed

section \<open>The generation fallback chain\<close>

text \<open>
  C4. \<open>generateWithFallback\<close> never throws: it always returns a string. It calls Groq
  exactly when the race of the Gemini call against its 3.5 s timer ended in an error
  (a rejection or the timeout) and \<open>GROQ_API_KEY\<close> is set to a non-empty string. When
  Gemini has failed and Groq is not configured, or has failed too in its 5 s race, the
  result is the fixed apology.
\<close>

theorem generateWithFallback_chain:
  "(\<exists>s. fst (generateWithFallback e prompt googleKey) = Inr s)
   \<and> ((\<exists>p k. Call_callGroq p k \<in> set (snd (generateWithFallback e prompt googleKey))) \<longleftrightarrow>
        isl (raceTimeout (callGemini e prompt googleKey) 3500) \<and> configured (GROQ_API_KEY e))
   \<and> (isl (raceTimeout (callGemini e prompt googleKey) 3500) \<and>
        (\<not> configured (GROQ_API_KEY e) \<or>
         (\<exists>k. GROQ_API_KEY e = Some k \<and> isl (raceTimeout (callGroq e prompt k) 5000)))
       \<longrightarrow> fst (generateWithFallback e prompt googleKey) = Inr apology)"
  by (auto simp: generateWithFallback_def split: sum.splits option.splits)

text \<open>
  In the sample environment Gemini is refused and Groq is configured, so Groq is
  called; without \<open>GROQ_API_KEY\<close> the result is the apology.
\<close>

theorem generateWithFallback_chain_witness:
  "isl (raceTimeout (callGemini sampleEnv (lit ''p'') (lit ''gemini-key'')) 3500)
   \<and> configured (GROQ_API_KEY sampleEnv)
   \<and> (\<exists>p k. Call_callGroq p k
         \<in> set (snd (generateWithFallback sampleEnv (lit ''p'') (lit ''gemini-key''))))
   \<and> isl (raceTimeout (callGemini (sampleEnv\<lparr>GROQ_API_KEY := None\<rparr>) (lit ''p'')
            (lit ''gemini-key'')) 3500)
   \<and> \<not> configured (GROQ_API_KEY (sampleEnv\<lparr>GROQ_API_KEY := None\<rparr>))
   \<and> fst (generateWithFallback (sampleEnv\<lparr>GROQ_API_KEY := None\<rparr>) (lit ''p'')
            (lit ''gemini-key'')) = Inr apology"
proof -
  have g: "isl (raceTimeout (callGemini sampleEnv (lit ''p'') (lit ''gemini-key'')) 3500)"
    by (simp add: callGemini_def sampleEnv_def)
  have g': "isl (raceTimeout (callGemini (sampleEnv\<lparr>GROQ_API_KEY := None\<rparr>) (lit ''p'')
            (lit ''gemini-key'')) 3500)"
    by (simp add: callGemini_def sampleEnv_def)
  have c: "configured (GROQ_API_KEY sampleEnv)"
    by (simp add: sampleEnv_def truthy_def lit_def)
  have n: "\<not> configured (GROQ_API_KEY (sampleEnv\<lparr>GROQ_API_KEY := None\<rparr>))"
    by simp
  show ?thesis
    using generateWithFallback_chain [of sampleEnv "lit ''p''" "lit ''gemini-key''"]
      generateWithFallback_chain [of "sampleEnv\<lparr>GROQ_API_KEY := None\<rparr>" "lit ''p''"
        "lit ''gemini-key''"] g g' c n
    by blast
qed

section \<open>The classifier and the general-chat turn\<close>

text \<open>
  C9. A query is classified as general chat exactly when its trimmed text, with the
  ASCII letters in lower case, is one of the nine phrases of the pattern. A trimmed
  query that is a phrase with anything more before or after it is not classified. For
  a classified query the handler makes no search call: the context is the empty
  string, the confidence is 0, and the only calls are those of the generation, made
  with the prompt built from that empty context.
\<close>

theorem isGeneralChat_exact_match:
  "(isGeneralChat q \<longleftrightarrow> map asciiLower (trim q) \<in> set alternatives)
   \<and> (\<forall>p w. p \<in> set alternatives \<and> w \<noteq> [] \<and>
         (map asciiLower (trim q) = p @ w \<or> map asciiLower (trim q) = w @ p)
         \<longrightarrow> \<not> isGeneralChat q)
   \<and> (isGeneralChat q \<longrightarrow>
        contextAndConfidence e q = (Some (Inr ([], 0)), [])
        \<and> snd (snd (answerQuery_unified e apiKey messages q cache)) =
            snd (generateWithFallback e
                   (buildProductionPrompt_unified e
                      \<lparr>retrieval.content = [], confidence = 0\<rparr> q messages) apiKey))"
proof (intro conjI allI impI)
  show "isGeneralChat q \<longleftrightarrow> map asciiLower (trim q) \<in> set alternatives"
    by (rule isGeneralChat_iff)
next
  fix p w
  assume "p \<in> set alternatives \<and> w \<noteq> [] \<and>
         (map asciiLower (trim q) = p @ w \<or> map asciiLower (trim q) = w @ p)"
  then have "map asciiLower (trim q) \<notin> set alternatives"
    using no_alternative_extends [of p w] no_alternative_extended_left [of p w] by auto
  then show "\<not> isGeneralChat q" by (simp add: isGeneralChat_iff)
next
  assume "isGeneralChat q"
  then show "contextAndConfidence e q = (Some (Inr ([], 0)), [])"
    by (simp add: contextAndConfidence_def)
next
  assume "isGeneralChat q"
  then show "snd (snd (answerQuery_unified e apiKey messages q cache)) =
            snd (generateWithFallback e
                   (buildProductionPrompt_unified e
                      \<lparr>retrieval.content = [], confidence = 0\<rparr> q messages) apiKey)"
    by (rule answerQuery_unified_general_calls)
qed

text \<open>
  The query \<open>" Thank YOU "\<close> is classified and skips the search; \<open>hello there\<close> is the
  phrase \<open>hello\<close> with one more word and is not classified.
\<close>

theorem isGeneralChat_exact_match_witness:
  "isGeneralChat (lit '' Thank YOU '')
   \<and> map asciiLower (trim (lit '' Thank YOU '')) = lit ''thank you''
   \<and> contextAndConfidence sampleEnv (lit '' Thank YOU '') = (Some (Inr ([], 0)), [])
   \<and> lit ''hello'' \<in> set alternatives
   \<and> map asciiLower (trim (lit ''hello there'')) = lit ''hello'' @ lit '' there''
   \<and> \<not> isGeneralChat (lit ''hello there'')"
proof -
  have a: "map asciiLower (trim (lit '' Thank YOU '')) = lit ''thank you''"
    by (simp add: lit_def trim_def isWhiteSpace_def asciiLower_def)
  have b: "lit ''thank you'' \<in> set alternatives"
    by (simp add: alternatives_def)
  have c: "lit ''hello'' \<in> set alternatives"
    by (simp add: alternatives_def)
  have d: "map asciiLower (trim (lit ''hello there'')) = lit ''hello'' @ lit '' there''"
    by (simp add: lit_def trim_def isWhiteSpace_def asciiLower_def)
  have n: "lit '' there'' \<noteq> []" by (simp add: lit_def)
  have g: "isGeneralChat (lit '' Thank YOU '')"
    using isGeneralChat_exact_match [of "lit '' Thank YOU ''"] a b by simp
  have h: "\<not> isGeneralChat (lit ''hello there'')"
    using isGeneralChat_exact_match [of "lit ''hello there''"] c d n by blast
  have k: "contextAndConfidence sampleEnv (lit '' Thank YOU '') = (Some (Inr ([], 0)), [])"
    using isGeneralChat_exact_match [of "lit '' Thank YOU ''" sampleEnv] g by blast
  show ?thesis using a c d g h k by blast
qed

text \<open>
  The handler of \<open>src/lib/tavily-search.ts\<close>: when the last message of the request is
  classified as general chat, it never calls \<open>setCache\<close> and leaves the cache as it
  found it, whatever else happens to the request.
\<close>

theorem POST_unified_general_chat_no_put:
  assumes "req = Messages messages" and "messages \<noteq> []"
    and "isGeneralChat (message.content (last messages))"
  shows "fst (snd (POST_unified e req cache)) = cache
         \<and> (\<forall>q a. Call_setCache q a \<notin> set (snd (snd (POST_unified e req cache))))"
proof -
  have s: "slice messages (- 1) None = [last messages]"
    using assms(2) by (rule slice_last)
  have g: "\<And>apiKey c q a.
      fst (snd (answerQuery_unified e apiKey messages (message.content (last messages)) c)) = c
      \<and> Call_setCache q a \<notin>
          set (snd (snd (answerQuery_unified e apiKey messages
                           (message.content (last messages)) c)))"
    using assms(3) by (rule answerQuery_unified_general)
  obtain r c where gc: "getCached e cache (message.content (last messages)) = (r, c)"
    by (cases "getCached e cache (message.content (last messages))")
  then have c: "c = cache"
    using snd_getCached [of e cache "message.content (last messages)"] by simp
  show ?thesis
    using g by (simp add: POST_unified_def assms(1) s gc c Let_def split: option.splits)
qed

text \<open>
  The request \<open>Hello\<close> in the sample environment, with one entry in the cache: the
  handler answers with Groq's text and the cache still holds that one entry.
\<close>

theorem POST_unified_general_chat_no_put_witness:
  "isGeneralChat (message.content (last [\<lparr>role = lit ''user'', content = lit ''Hello''\<rparr>]))
   \<and> fst (snd (POST_unified sampleEnv
        (Messages [\<lparr>role = lit ''user'', content = lit ''Hello''\<rparr>])
        [lit ''fees'' \<mapsto> \<lparr>answer = lit ''1000'', timestamp = 500\<rparr>])) =
       [lit ''fees'' \<mapsto> \<lparr>answer = lit ''1000'', timestamp = 500\<rparr>]
   \<and> fst (POST_unified sampleEnv
        (Messages [\<lparr>role = lit ''user'', content = lit ''Hello''\<rparr>])
        [lit ''fees'' \<mapsto> \<lparr>answer = lit ''1000'', timestamp = 500\<rparr>]) =
       Some (createStreamResponse (lit ''answer''))"
proof -
  let ?ms = "[\<lparr>role = lit ''user'', content = lit ''Hello''\<rparr>]"
  let ?c = "[lit ''fees'' \<mapsto> \<lparr>answer = lit ''1000'', timestamp = 500\<rparr>]"
  have g: "isGeneralChat (message.content (last ?ms))"
    by (simp add: isGeneralChat_def alternatives_def lit_def trim_def isWhiteSpace_def
          canonicalize_def)
  have ne: "?ms \<noteq> []" by simp
  have r: "fst (POST_unified sampleEnv (Messages ?ms) ?c) =
             Some (createStreamResponse (lit ''answer''))"
    by (simp add: POST_unified_def sampleEnv_def slice_def truthy_def lit_def getCached_def
          cacheKey_def trim_def isWhiteSpace_def asciiLower_def answerQuery_unified_def
          contextAndConfidence_def isGeneralChat_def alternatives_def canonicalize_def
          generateWithFallback_def callGemini_def callGroq_def Let_def)
  show ?thesis
    using POST_unified_general_chat_no_put [OF refl ne g, of sampleEnv ?c] g r by blast
qed

text \<open>
  The handler of \<open>src/app/api/chat/route.ts\<close> has no classifier: once the cache check
  has missed, it stores the answer to any query, a greeting included.
\<close>

lemma answerQuery_route_always_caches:
  "\<exists>ans calls. snd (answerQuery_route e apiKey messages userQuery cache) =
     (setCache e cache userQuery ans, calls @ [Call_setCache userQuery ans])"
proof -
  obtain r calls1 where t: "tieredRetrieval e userQuery = (r, calls1)"
    by (cases "tieredRetrieval e userQuery")
  define prompt where "prompt = buildProductionPrompt_route e r userQuery messages"
  obtain g calls2 where c: "generateWithFallback e prompt apiKey = (g, calls2)"
    by (cases "generateWithFallback e prompt apiKey")
  obtain ans where a: "g = Inr ans"
    using generateWithFallback_returns [of e prompt apiKey] c by auto
  have "snd (answerQuery_route e apiKey messages userQuery cache) =
          (setCache e cache userQuery ans, (calls1 @ calls2) @ [Call_setCache userQuery ans])"
    using c by (simp add: answerQuery_route_def t prompt_def a)
  then show ?thesis by blast
qed

lemma isGeneralChat_truthy: "isGeneralChat q \<Longrightarrow> truthy q"
proof -
  assume g: "isGeneralChat q"
  have "\<not> isGeneralChat []"
    by (simp add: isGeneralChat_def alternatives_def lit_def trim_def)
  then show ?thesis using g by (auto simp: truthy_def)
qed

lemma POST_route_general_chat_puts:
  assumes "GEMINI_API_KEY e = Some apiKey" and "truthy apiKey" and "messages \<noteq> []"
    and "isGeneralChat (message.content (last messages))"
    and "fst (getCached e cache (message.content (last messages))) = None"
  shows "\<exists>ans calls. snd (POST_route e (Messages messages) cache) =
           (setCache e cache (message.content (last messages)) ans,
            calls @ [Call_setCache (message.content (last messages)) ans])"
proof -
  let ?q = "message.content (last messages)"
  have s: "slice messages (- 1) None = [last messages]"
    using assms(3) by (rule slice_last)
  have t: "truthy ?q" using assms(4) by (rule isGeneralChat_truthy)
  have gc: "getCached e cache ?q = (None, cache)"
    using assms(5) snd_getCached [of e cache ?q] by (cases "getCached e cache ?q") simp
  have "POST_route e (Messages messages) cache = answerQuery_route e apiKey messages ?q cache"
    by (simp add: POST_route_def assms(1) assms(2) s t gc)
  then show ?thesis
    using answerQuery_route_always_caches [of e apiKey messages ?q cache] by simp
qed

text \<open>
  C2, at the request whose only message is \<open>Hello\<close>, in the sample environment and with
  an empty cache: the query is general chat, yet the handler of
  \<open>src/app/api/chat/route.ts\<close> ends with a call of \<open>setCache\<close> and leaves the answer
  stored under the key of \<open>hello\<close>; the handler of \<open>src/lib/tavily-search.ts\<close> leaves
  the cache empty on the same request.
\<close>

theorem POST_route_caches_general_chat:
  "isGeneralChat (lit ''Hello'')
   \<and> fst (snd (POST_route sampleEnv
        (Messages [\<lparr>role = lit ''user'', content = lit ''Hello''\<rparr>]) Map.empty)) =
       [lit ''hello'' \<mapsto> \<lparr>answer = lit ''answer'', timestamp = 2000\<rparr>]
   \<and> last (snd (snd (POST_route sampleEnv
        (Messages [\<lparr>role = lit ''user'', content = lit ''Hello''\<rparr>]) Map.empty))) =
       Call_setCache (lit ''Hello'') (lit ''answer'')
   \<and> fst (snd (POST_unified sampleEnv
        (Messages [\<lparr>role = lit ''user'', content = lit ''Hello''\<rparr>]) Map.empty)) =
       Map.empty"
  by (simp add: POST_route_def POST_unified_def sampleEnv_def slice_def truthy_def lit_def
        getCached_def setCache_def cacheKey_def trim_def isWhiteSpace_def asciiLower_def
        answerQuery_route_def answerQuery_unified_def contextAndConfidence_def
        tieredRetrieval_def searchTavily_def formattedResults_def
        isGeneralChat_def alternatives_def canonicalize_def
        generateWithFallback_def callGemini_def callGroq_def Let_def)

section \<open>The prompt builder\<close>

text \<open>
  The window of history the two builders render: the one of
  \<open>src/lib/tavily-search.ts\<close> drops the last message and keeps at most the last four
  of the rest, in order; the one of \<open>src/app/api/chat/route.ts\<close> keeps the last four
  of the whole history, the last message among them.
\<close>

lemma recentHistory_unified_window:
  "recentHistory_unified e history =
     join (lit ''\<newline>'')
       (map (historyLine e) (drop (length (butlast history) - 4) (butlast history)))
   \<and> length (drop (length (butlast history) - 4) (butlast history)) \<le> 4"
  by (simp add: recentHistory_unified_def slice_last4 slice_all_but_last)

lemma recentHistory_route_window:
  "recentHistory_route e history =
     join (lit ''\<newline>'') (map (historyLine e) (drop (length history - 4) history))"
  by (simp add: recentHistory_route_def slice_last4)

lemma route_window_keeps_query:
  "history \<noteq> [] \<Longrightarrow> last (drop (length history - 4) history) = last history"
  by simp

text \<open>
  C1, at the history that holds the current query alone: the builder of
  \<open>src/app/api/chat/route.ts\<close> renders the query in the HISTORY section, as
  \<open>USER: \<close> followed by the query, and again under USER QUESTION; the builder of
  \<open>src/lib/tavily-search.ts\<close> leaves HISTORY empty there.
\<close>

theorem buildProductionPrompt_route_repeats_query:
  "buildProductionPrompt_route e r query [\<lparr>role = lit ''user'', content = query\<rparr>] =
     promptTemplate e r (toUpperCase e (lit ''user'') @ lit '': '' @ query) query
   \<and> buildProductionPrompt_unified e r query [\<lparr>role = lit ''user'', content = query\<rparr>] =
     promptTemplate e r [] query"
  by (simp add: buildProductionPrompt_route_def buildProductionPrompt_unified_def
        recentHistory_route_def recentHistory_unified_def slice_def historyLine_def)

end
